theory Spec2Isabelle
  imports Complex_Main "HOL-Library.Sublist"
begin

section \<open>Strings\<close>

text \<open>
  Strings are lists of bytes (the UTF-8 encoding of the JavaScript string). The case
  mappings \<open>toLowerCase\<close> and \<open>toUpperCase\<close> are the ASCII ones: the letters A-Z and a-z
  are mapped, every other byte is kept.
\<close>

definition toLowerCase :: "string \<Rightarrow> string" where
  "toLowerCase s =
     map (\<lambda>c. let n = (of_char c :: nat) in if 65 \<le> n \<and> n \<le> 90 then char_of (n + 32) else c) s"

definition toUpperCase :: "string \<Rightarrow> string" where
  "toUpperCase s =
     map (\<lambda>c. let n = (of_char c :: nat) in if 97 \<le> n \<and> n \<le> 122 then char_of (n - 32) else c) s"

text \<open>\<open>haystack.includes(needle)\<close>: the needle starts at some position of the haystack.\<close>

fun str_includes :: "string \<Rightarrow> string \<Rightarrow> bool" where
  "str_includes [] needle = (needle = [])"
| "str_includes (c # cs) needle = (prefix needle (c # cs) \<or> str_includes cs needle)"

text \<open>\<open>parts.join(sep)\<close>.\<close>

fun join :: "string \<Rightarrow> string list \<Rightarrow> string" where
  "join sep [] = []"
| "join sep [x] = x"
| "join sep (x # y # ys) = x @ sep @ join sep (y # ys)"

text \<open>The decimal rendering of a length inside a template literal.\<close>

function decimal :: "nat \<Rightarrow> string" where
  "decimal n = (if n < 10 then [char_of (48 + n)] else decimal (n div 10) @ [char_of (48 + n mod 10)])"
  by pat_completeness auto
termination
  by (relation "measure (\<lambda>n. n)") auto

declare decimal.simps [simp del]

text \<open>
  \<open>s.trim()\<close>, for the ASCII white space and line terminators (tab, line feed, vertical
  tab, form feed, carriage return, space).
\<close>

definition isWhiteSpace :: "char \<Rightarrow> bool" where
  "isWhiteSpace c = (let n = (of_char c :: nat) in (9 \<le> n \<and> n \<le> 13) \<or> n = 32)"

definition trim :: "string \<Rightarrow> string" where
  "trim s = rev (dropWhile isWhiteSpace (rev (dropWhile isWhiteSpace s)))"

definition NL :: string where
  "NL = [CHR 0x0A]"

section \<open>Numbers\<close>

text \<open>
  A JavaScript number is an IEEE 754 binary64 value. A finite one is modelled by the real it
  denotes, and every operation rounds its exact result to the nearest double, ties to even.
  Infinity and NaN are not modelled: the scorer stays far below the overflow threshold for
  weights in [0,1], and it never divides by zero. A length is an integer below \<open>2 ^ 32\<close>
  and so a double as it is. Counters of the statistics are integers.
\<close>

text \<open>The integer nearest to \<open>y\<close>, the even one when two are equally near.\<close>

definition roundTiesToEven :: "real \<Rightarrow> int" where
  "roundTiesToEven y =
     (let f = \<lfloor>y\<rfloor>; d = y - of_int f
      in if d < 1 / 2 then f else if 1 / 2 < d then f + 1 else if even f then f else f + 1)"

text \<open>The exponent of the spacing of the doubles around \<open>x\<close>: 53 significant bits, and the
  subnormal spacing below \<open>2 ^ -1022\<close>.\<close>

definition ulp_exponent :: "real \<Rightarrow> int" where
  "ulp_exponent x = max (\<lfloor>log 2 \<bar>x\<bar>\<rfloor> - 52) (- 1074)"

definition double :: "real \<Rightarrow> real" where
  "double x =
     (if x = 0 then 0
      else of_int (roundTiesToEven (x / 2 powr of_int (ulp_exponent x)))
           * 2 powr of_int (ulp_exponent x))"

text \<open>The operators \<open>+\<close>, \<open>*\<close> and \<open>/\<close> on numbers.\<close>

definition fadd :: "real \<Rightarrow> real \<Rightarrow> real" where
  "fadd x y = double (x + y)"

definition fmul :: "real \<Rightarrow> real \<Rightarrow> real" where
  "fmul x y = double (x * y)"

definition fdiv :: "real \<Rightarrow> real \<Rightarrow> real" where
  "fdiv x y = double (x / y)"

section \<open>Data model\<close>

record ThreatPattern =
  pattern_name :: string
  pattern_type :: string
  indicators :: "string list"
  severity_weight :: real

datatype severity = Safe | Low | Medium | High | Critical

fun severity_name :: "severity \<Rightarrow> string" where
  "severity_name Safe = ''safe''"
| "severity_name Low = ''low''"
| "severity_name Medium = ''medium''"
| "severity_name High = ''high''"
| "severity_name Critical = ''critical''"

text \<open>An element of \<open>detectedPatterns\<close> inside \<open>analyzeThreatWithNLP\<close>: \<open>{ pattern, matches }\<close>.\<close>

record MatchResult =
  pattern :: ThreatPattern
  matches :: "string list"

text \<open>The object returned by \<open>analyzeThreatWithNLP\<close>.\<close>

record analysis =
  threatType :: string
  severityLevel :: severity
  detectedPatterns :: "string list"
  confidenceScore :: real
  nlpExplanation :: string

section \<open>Explainer: \<open>generateNLPExplanation\<close>\<close>

text \<open>One element of \<open>patternDescriptions\<close> (lines 89-92).\<close>

definition patternDescription :: "MatchResult \<Rightarrow> string" where
  "patternDescription p =
     (let matchList = join '', '' (map (\<lambda>m. [CHR 0x22] @ m @ [CHR 0x22]) (take 3 (matches p)))
      in [CHR 0xE2, CHR 0x80, CHR 0xA2] @ '' '' @ pattern_name (pattern p) @ '': Detected ''
         @ decimal (length (matches p)) @ '' indicator(s) including '' @ matchList)"

text \<open>The \<open>switch\<close> on \<open>severityLevel\<close> (lines 97-117); the \<open>default\<close> branch is the last equation.\<close>

definition severityDescription :: "string \<Rightarrow> string" where
  "severityDescription level =
     (if level = ''critical'' then
        ''CRITICAL THREAT - This communication exhibits multiple high-risk social engineering tactics commonly used in sophisticated attacks.''
      else if level = ''high'' then
        ''HIGH RISK - This communication shows strong indicators of a social engineering attack designed to manipulate you into taking harmful actions.''
      else if level = ''medium'' then
        ''MEDIUM RISK - This communication contains suspicious elements that may indicate a social engineering attempt.''
      else if level = ''low'' then
        ''LOW RISK - Minor indicators detected that warrant attention, though the threat level is relatively low.''
      else ''Safe communication detected.'')"

definition recommendation :: "string \<Rightarrow> string" where
  "recommendation level =
     (if level = ''critical'' then
        ''DO NOT interact with this message. Do not click any links, download attachments, or provide any information. Report this immediately to your security team and delete it.''
      else if level = ''high'' then
        ''Exercise extreme caution. Verify the sender through a separate, trusted communication channel before taking any action. Do not click links or provide sensitive information.''
      else if level = ''medium'' then
        ''Be cautious. Independently verify the legitimacy of this communication before responding or taking action. Look for additional warning signs.''
      else if level = ''low'' then
        ''Remain alert. While not immediately dangerous, verify the authenticity if the message requests any action or information from you.''
      else ''No immediate action required.'')"

definition generateNLPExplanation :: "MatchResult list \<Rightarrow> string \<Rightarrow> string \<Rightarrow> string" where
  "generateNLPExplanation detected level sourceType =
     (let patternDescriptions = join NL (map patternDescription detected)
      in [CHR 0xF0, CHR 0x9F, CHR 0x8E, CHR 0xAF] @ '' THREAT ANALYSIS SUMMARY'' @ NL
         @ NL
         @ severityDescription level @ NL
         @ NL
         @ [CHR 0xF0, CHR 0x9F, CHR 0x93, CHR 0x8A] @ '' SOURCE TYPE: '' @ toUpperCase sourceType @ NL
         @ NL
         @ [CHR 0xF0, CHR 0x9F, CHR 0x94, CHR 0x8D] @ '' DETECTED ATTACK PATTERNS:'' @ NL
         @ patternDescriptions @ NL
         @ NL
         @ [CHR 0xF0, CHR 0x9F, CHR 0x92, CHR 0xA1] @ '' WHY THIS IS A THREAT:'' @ NL
         @ ''Social engineering attacks exploit human psychology rather than technical vulnerabilities. Attackers use manipulation techniques like urgency, authority, fear, or reward to bypass your natural skepticism and trick you into:'' @ NL
         @ ''- Revealing sensitive information (passwords, financial data)'' @ NL
         @ ''- Clicking malicious links that install malware'' @ NL
         @ ''- Transferring money or making unauthorized purchases'' @ NL
         @ ''- Granting access to secure systems'' @ NL
         @ NL
         @ ''The patterns detected in this communication are consistent with known social engineering tactics used by cybercriminals to compromise individuals and organizations.'' @ NL
         @ NL
         @ [CHR 0xE2, CHR 0x9C, CHR 0x85] @ '' RECOMMENDED ACTION:'' @ NL
         @ recommendation level @ NL
         @ NL
         @ [CHR 0xF0, CHR 0x9F, CHR 0x9B, CHR 0xA1, CHR 0xEF, CHR 0xB8, CHR 0x8F] @ '' REMEMBER: Legitimate organizations will never:'' @ NL
         @ ''- Demand immediate action with threats'' @ NL
         @ ''- Ask for passwords or sensitive data via email'' @ NL
         @ ''- Use urgent language to prevent you from thinking clearly'' @ NL
         @ ''- Send unsolicited links requiring immediate clicks'')"

section \<open>Matcher and scorer: \<open>analyzeThreatWithNLP\<close>\<close>

text \<open>The inner \<open>forEach\<close> over the indicators of one pattern (lines 36-43).\<close>

definition matchIndicators :: "string \<Rightarrow> string list \<Rightarrow> string list" where
  "matchIndicators contentLower inds =
     foldl (\<lambda>ms indicator.
              if str_includes contentLower (toLowerCase indicator) then ms @ [indicator] else ms)
           [] inds"

text \<open>The outer \<open>forEach\<close> over the patterns (lines 32-48).\<close>

definition matchPatterns :: "string \<Rightarrow> ThreatPattern list \<Rightarrow> MatchResult list" where
  "matchPatterns content patterns =
     (let contentLower = toLowerCase content
      in foldl (\<lambda>detected p.
                  let ms = matchIndicators contentLower (indicators p)
                  in if length ms > 0 then detected @ [\<lparr>pattern = p, matches = ms\<rparr>] else detected)
               [] patterns)"

text \<open>
  The first argument is \<open>data\<close> of the query on \<open>threat_patterns\<close> with \<open>is_active = true\<close>:
  \<open>None\<close> when it is \<open>null\<close>, otherwise the rows in the order the query returned them. The
  literal \<open>0.9\<close> is the double nearest to it; 0.75, 0.5 and the integers are doubles as
  they are.
\<close>

definition analyzeThreatWithNLP :: "ThreatPattern list option \<Rightarrow> string \<Rightarrow> string \<Rightarrow> analysis" where
  "analyzeThreatWithNLP patterns_opt content sourceType =
     (case patterns_opt of
        None \<Rightarrow>
          \<lparr>threatType = ''none'', severityLevel = Safe, detectedPatterns = [],
           confidenceScore = 0,
           nlpExplanation = ''No threats detected. This communication appears safe.''\<rparr>
      | Some patterns \<Rightarrow>
          (let detected = matchPatterns content patterns
           in if length detected = 0 then
                \<lparr>threatType = ''none'', severityLevel = Safe, detectedPatterns = [],
                 confidenceScore = 95,
                 nlpExplanation = ''Analysis complete: No social engineering indicators detected. This communication appears legitimate and safe.''\<rparr>
              else
                (let totalWeight = foldl (\<lambda>sum p. fadd sum (severity_weight (pattern p))) 0 detected;
                     avgWeight = fdiv totalWeight (real (length detected));
                     confidence =
                       min 95 (fadd (fadd 50 (fmul (real (length detected)) 15)) (fmul avgWeight 20));
                     level = (if avgWeight \<ge> double 0.9 then Critical
                              else if avgWeight \<ge> 0.75 then High
                              else if avgWeight \<ge> 0.5 then Medium
                              else Low);
                     patternNames = map (\<lambda>p. pattern_name (pattern p)) detected;
                     ttype = pattern_type (pattern (hd detected));
                     explanation = generateNLPExplanation detected (severity_name level) sourceType
                 in \<lparr>threatType = ttype, severityLevel = level, detectedPatterns = patternNames,
                     confidenceScore = confidence, nlpExplanation = explanation\<rparr>)))"

section \<open>Persisted rows and the outside world\<close>

datatype status = New | Acknowledged | Resolved | FalsePositive

text \<open>A row of \<open>threat_detections\<close> (interface \<open>ThreatDetection\<close>); \<open>threat_id\<close> is its \<open>id\<close>.\<close>

record ThreatDetection =
  threat_id :: string
  user_id :: string
  threat_type :: string
  severity_level :: severity
  source_type :: string
  source_content :: string
  detected_patterns :: "string list"
  confidence_score :: real
  nlp_explanation :: string
  status :: status
  detected_at :: string
  resolved_at :: "string option"

text \<open>
  A row of \<open>detection_stats\<close> (interface \<open>DetectionStats\<close>); \<open>stats_id\<close> and \<open>stats_user_id\<close>
  are its \<open>id\<close> and \<open>user_id\<close>. The JSON object \<open>threats_by_severity\<close> is a list of
  key-value pairs.
\<close>

record DetectionStats =
  stats_id :: string
  stats_user_id :: string
  date :: string
  total_scanned :: int
  threats_detected :: int
  false_positives :: int
  threats_by_severity :: "(string \<times> int) list"

text \<open>Reading and writing a property of a JavaScript object: \<open>obj[k]\<close> and \<open>obj[k] = v\<close>.\<close>

fun obj_get :: "(string \<times> 'v) list \<Rightarrow> string \<Rightarrow> 'v option" where
  "obj_get [] k = None"
| "obj_get ((k', v') # kvs) k = (if k' = k then Some v' else obj_get kvs k)"

fun obj_set :: "(string \<times> 'v) list \<Rightarrow> string \<Rightarrow> 'v \<Rightarrow> (string \<times> 'v) list" where
  "obj_set [] k v = [(k, v)]"
| "obj_set ((k', v') # kvs) k v = (if k' = k then (k, v) # kvs else (k', v') # obj_set kvs k v)"

text \<open>
  What the outside world answers during one call: the \<open>data\<close> of the query for the active
  patterns, the \<open>error\<close> of the insert into \<open>threat_detections\<close> (\<open>None\<close> when it
  succeeds), the client clock \<open>new Date().toISOString()\<close>, and the defaults the database
  fills in (\<open>gen_random_uuid()\<close>, \<open>now()\<close>). Reads and writes of \<open>detection_stats\<close> and
  updates of \<open>threat_detections\<close> are taken to succeed (the signed-in user owns the rows,
  as the row-level policies require): the code never looks at their errors.
\<close>

record env =
  patterns_data :: "ThreatPattern list option"
  insert_error :: "string option"
  client_now :: string
  new_threat_id :: string
  new_stats_id :: string
  db_now :: string

datatype io_event =
  SelectPatterns | InsertDetection | ConsoleError | SelectStats | UpdateStats | InsertStats
  | UpdateDetection

text \<open>The two tables the service writes, and the trace of the calls made to the outside.\<close>

record db =
  threat_detections :: "ThreatDetection list"
  detection_stats :: "DetectionStats list"
  io_log :: "io_event list"

section \<open>Stats aggregator: \<open>updateUserStats\<close>\<close>

text \<open>\<open>iso.split('T')[0]\<close>.\<close>

definition today_of :: "string \<Rightarrow> string" where
  "today_of stamp = takeWhile (\<lambda>c. c \<noteq> CHR ''T'') stamp"

text \<open>\<open>.maybeSingle()\<close>: the row when exactly one matches, \<open>null\<close> otherwise.\<close>

definition maybeSingle :: "'a list \<Rightarrow> 'a option" where
  "maybeSingle rows = (case rows of [r] \<Rightarrow> Some r | _ \<Rightarrow> None)"

definition stats_for :: "string \<Rightarrow> string \<Rightarrow> DetectionStats list \<Rightarrow> DetectionStats list" where
  "stats_for userId day rows = filter (\<lambda>r. stats_user_id r = userId \<and> date r = day) rows"

text \<open>The insert into \<open>detection_stats\<close>, which the table's \<open>UNIQUE(user_id, date)\<close> refuses
  when the pair is already there.\<close>

definition insert_stats :: "DetectionStats \<Rightarrow> DetectionStats list \<Rightarrow> DetectionStats list" where
  "insert_stats row rows =
     (if stats_for (stats_user_id row) (date row) rows = [] then rows @ [row] else rows)"

definition updateUserStats :: "env \<Rightarrow> db \<Rightarrow> string \<Rightarrow> string \<Rightarrow> db" where
  "updateUserStats e d userId level =
     (let today = today_of (client_now e);
          existing = maybeSingle (stats_for userId today (detection_stats d));
          d1 = d\<lparr>io_log := io_log d @ [SelectStats]\<rparr>
      in case existing of
           Some ex \<Rightarrow>
             (let threatsBySeverity =
                    obj_set (threats_by_severity ex) level
                      ((case obj_get (threats_by_severity ex) level of None \<Rightarrow> 0 | Some n \<Rightarrow> n) + 1)
              in d1\<lparr>detection_stats :=
                       map (\<lambda>r. if stats_id r = stats_id ex
                                 then r\<lparr>total_scanned := total_scanned ex + 1,
                                        threats_detected :=
                                          threats_detected ex + (if level \<noteq> ''safe'' then 1 else 0),
                                        threats_by_severity := threatsBySeverity\<rparr>
                                 else r)
                           (detection_stats d1),
                     io_log := io_log d1 @ [UpdateStats]\<rparr>)
         | None \<Rightarrow>
             (let threatsBySeverity =
                    obj_set [(''safe'', 0), (''low'', 0), (''medium'', 0), (''high'', 0), (''critical'', 0)]
                      level 1
              in d1\<lparr>detection_stats :=
                       insert_stats
                         \<lparr>stats_id = new_stats_id e, stats_user_id = userId, date = today,
                          total_scanned = 1,
                          threats_detected = (if level \<noteq> ''safe'' then 1 else 0),
                          false_positives = 0,
                          threats_by_severity = threatsBySeverity\<rparr>
                         (detection_stats d1),
                     io_log := io_log d1 @ [InsertStats]\<rparr>))"

text \<open>A sequence of calls for one user, each with its own clock and severity.\<close>

fun record_scans :: "db \<Rightarrow> string \<Rightarrow> (env \<times> severity) list \<Rightarrow> db" where
  "record_scans d userId [] = d"
| "record_scans d userId ((e, s) # calls) =
     record_scans (updateUserStats e d userId (severity_name s)) userId calls"

section \<open>Scan orchestrator: \<open>scanCommunication\<close>\<close>

definition scanCommunication ::
  "env \<Rightarrow> db \<Rightarrow> string \<Rightarrow> string \<Rightarrow> string \<Rightarrow> ThreatDetection option \<times> db" where
  "scanCommunication e d userId content sourceType =
     (let d1 = d\<lparr>io_log := io_log d @ [SelectPatterns]\<rparr>;
          a = analyzeThreatWithNLP (patterns_data e) content sourceType;
          d2 = d1\<lparr>io_log := io_log d1 @ [InsertDetection]\<rparr>
      in case insert_error e of
           Some err \<Rightarrow> (None, d2\<lparr>io_log := io_log d2 @ [ConsoleError]\<rparr>)
         | None \<Rightarrow>
             (let row = \<lparr>threat_id = new_threat_id e, user_id = userId,
                         threat_type = threatType a, severity_level = severityLevel a,
                         source_type = sourceType, source_content = content,
                         detected_patterns = detectedPatterns a,
                         confidence_score = confidenceScore a,
                         nlp_explanation = nlpExplanation a, status = New,
                         detected_at = db_now e, resolved_at = None\<rparr>;
                  d3 = d2\<lparr>threat_detections := threat_detections d2 @ [row]\<rparr>
              in (Some row, updateUserStats e d3 userId (severity_name (severityLevel a)))))"

text \<open>The caller in the scanner dialog (\<open>handleScan\<close>), whose \<open>sourceType\<close> state has the type
  \<open>'email' | 'message' | 'link' | 'other'\<close>.\<close>

datatype SourceType = Email | Message | Link | Other

fun source_type_name :: "SourceType \<Rightarrow> string" where
  "source_type_name Email = ''email''"
| "source_type_name Message = ''message''"
| "source_type_name Link = ''link''"
| "source_type_name Other = ''other''"

definition handleScan :: "env \<Rightarrow> db \<Rightarrow> string \<Rightarrow> string \<Rightarrow> SourceType \<Rightarrow> db" where
  "handleScan e d userId content sourceType =
     (if trim content = [] then d
      else snd (scanCommunication e d userId content (source_type_name sourceType)))"

section \<open>Status changes: \<open>markThreatResolved\<close>, \<open>markThreatAcknowledged\<close>\<close>

definition markThreatResolved :: "env \<Rightarrow> db \<Rightarrow> string \<Rightarrow> db" where
  "markThreatResolved e d threatId =
     d\<lparr>threat_detections :=
         map (\<lambda>r. if threat_id r = threatId
                   then r\<lparr>status := Resolved, resolved_at := Some (client_now e)\<rparr> else r)
             (threat_detections d),
       io_log := io_log d @ [UpdateDetection]\<rparr>"

definition markThreatAcknowledged :: "db \<Rightarrow> string \<Rightarrow> db" where
  "markThreatAcknowledged d threatId =
     d\<lparr>threat_detections :=
         map (\<lambda>r. if threat_id r = threatId then r\<lparr>status := Acknowledged\<rparr> else r)
             (threat_detections d),
       io_log := io_log d @ [UpdateDetection]\<rparr>"

text \<open>The buttons the threat card renders for a record, by its status.\<close>

datatype button = AcknowledgeButton | ResolveButton

definition ThreatCard_buttons :: "status \<Rightarrow> button list" where
  "ThreatCard_buttons st =
     (if st = New then [AcknowledgeButton, ResolveButton] else [])
     @ (if st = Acknowledged then [ResolveButton] else [])"

section \<open>The words of the specification\<close>

text \<open>
  An indicator occurs as a case-insensitive substring of the content: the lower-cased
  indicator is a contiguous part of the lower-cased content.
\<close>

definition occurs_ci :: "string \<Rightarrow> string \<Rightarrow> bool" where
  "occurs_ci indicator content =
     (\<exists>before after. toLowerCase content = before @ toLowerCase indicator @ after)"

text \<open>The matched patterns: those with at least one indicator that occurs, in catalog order.\<close>

definition matched_patterns :: "string \<Rightarrow> ThreatPattern list \<Rightarrow> ThreatPattern list" where
  "matched_patterns content patterns =
     filter (\<lambda>p. \<exists>i\<in>set (indicators p). occurs_ci i content) patterns"

text \<open>The claim's words for the stats row: the sum of the \<open>by_severity\<close> values.\<close>

definition sum_by_severity :: "DetectionStats \<Rightarrow> int" where
  "sum_by_severity r = sum_list (map snd (threats_by_severity r))"


section \<open>Concrete inputs\<close>

text \<open>
  The six rows of the seeded catalog as the client receives them, in the order of the
  migration: a stored weight arrives as the double nearest to it. Then the contents of the
  scenarios: a message that matches the first and the third row, one that matches none, one
  that matches two indicators of the third row in the reverse of their declaration order,
  one that matches the second and the fourth row, and one that is blank.
\<close>

definition urgent_pattern :: ThreatPattern where
  "urgent_pattern =
     \<lparr>pattern_name = ''Urgent Action Required'', pattern_type = ''urgency_manipulation'',
      indicators = [''urgent'', ''immediately'', ''act now'', ''expires today'', ''final notice'',
                    ''account suspended'', ''verify now''],
      severity_weight = 0.75\<rparr>"

definition links_pattern :: ThreatPattern where
  "links_pattern =
     \<lparr>pattern_name = ''Suspicious Links'', pattern_type = ''phishing'',
      indicators = [''bit.ly'', ''tinyurl'', ''click here'', ''verify account'', ''confirm identity'',
                    ''unusual login'', ''security alert''],
      severity_weight = double 0.90\<rparr>"

definition authority_pattern :: ThreatPattern where
  "authority_pattern =
     \<lparr>pattern_name = ''Authority Impersonation'', pattern_type = ''pretexting'',
      indicators = [''from: ceo'', ''from: it department'', ''from: security team'',
                    ''official notice'', ''compliance required'', ''mandatory update''],
      severity_weight = double 0.85\<rparr>"

definition financial_pattern :: ThreatPattern where
  "financial_pattern =
     \<lparr>pattern_name = ''Financial Request'', pattern_type = ''baiting'',
      indicators = [''wire transfer'', ''payment urgent'', ''invoice attached'',
                    ''refund processing'', ''prize winner'', ''unclaimed money'', ''tax refund''],
      severity_weight = double 0.95\<rparr>"

definition credential_pattern :: ThreatPattern where
  "credential_pattern =
     \<lparr>pattern_name = ''Credential Harvesting'', pattern_type = ''phishing'',
      indicators = [''reset password'', ''confirm password'', ''update payment'',
                    ''verify credit card'', ''login credentials'', ''username and password''],
      severity_weight = double 0.95\<rparr>"

definition emotional_pattern :: ThreatPattern where
  "emotional_pattern =
     \<lparr>pattern_name = ''Emotional Manipulation'', pattern_type = ''manipulation'',
      indicators = [''help needed'', ''emergency'', ''family member'', ''sick relative'',
                    ''in trouble'', ''need help'', ''please help''],
      severity_weight = double 0.70\<rparr>"

definition full_catalog :: "ThreatPattern list" where
  "full_catalog =
     [urgent_pattern, authority_pattern, links_pattern, financial_pattern, credential_pattern,
      emotional_pattern]"

definition seeded_catalog :: "ThreatPattern list" where
  "seeded_catalog = [urgent_pattern, links_pattern]"

definition urgent_content :: string where
  "urgent_content = ''URGENT: verify your account now, click http://bit.ly/xyz''"

definition coffee_content :: string where
  "coffee_content = ''Let'' @ [CHR 0x27] @ ''s meet for coffee tomorrow''"

definition click_content :: string where
  "click_content = ''Click HERE http://Bit.ly/x''"

definition notice_content :: string where
  "notice_content = ''Official notice: wire transfer''"

definition ok_env :: env where
  "ok_env =
     \<lparr>patterns_data = Some seeded_catalog, insert_error = None,
      client_now = ''2025-11-03T10:19:26.000Z'', new_threat_id = ''t1'', new_stats_id = ''s1'',
      db_now = ''2025-11-03T10:19:26.100Z''\<rparr>"

definition later_env :: env where
  "later_env =
     \<lparr>patterns_data = Some seeded_catalog, insert_error = None,
      client_now = ''2025-11-03T18:00:00.000Z'', new_threat_id = ''t2'', new_stats_id = ''s2'',
      db_now = ''2025-11-03T18:00:00.100Z''\<rparr>"

definition failing_env :: env where
  "failing_env = ok_env\<lparr>insert_error := Some ''insert failed''\<rparr>"

definition empty_db :: db where
  "empty_db = \<lparr>threat_detections = [], detection_stats = [], io_log = []\<rparr>"

definition resolved_record :: ThreatDetection where
  "resolved_record =
     \<lparr>threat_id = ''t0'', user_id = ''u1'', threat_type = ''none'', severity_level = Safe,
      source_type = ''email'', source_content = ''hello'', detected_patterns = [],
      confidence_score = 95, nlp_explanation = ''ok'', status = Resolved,
      detected_at = ''2025-11-02T08:00:00.000Z'',
      resolved_at = Some ''2025-11-02T09:00:00.000Z''\<rparr>"

definition resolved_db :: db where
  "resolved_db = \<lparr>threat_detections = [resolved_record], detection_stats = [], io_log = []\<rparr>"

definition blank_content :: string where
  "blank_content = ''  ''"


section \<open>Numbers: rounding from below and in a binade\<close>

lemma roundTiesToEven_ge:
  assumes "of_int k \<le> y"
  shows "k \<le> roundTiesToEven y"
proof -
  have "k \<le> \<lfloor>y\<rfloor>" using assms by (simp add: le_floor_iff)
  then show ?thesis by (simp add: roundTiesToEven_def Let_def)
qed

lemma double_lower:
  assumes "x \<noteq> 0" and "of_int k * 2 powr of_int (ulp_exponent x) \<le> x"
  shows "of_int k * 2 powr of_int (ulp_exponent x) \<le> double x"
proof -
  let ?q = "2 powr of_int (ulp_exponent x) :: real"
  have q: "0 < ?q" by simp
  have "of_int k \<le> x / ?q"
    using assms(2) q by (simp add: pos_le_divide_eq)
  then have "k \<le> roundTiesToEven (x / ?q)" by (rule roundTiesToEven_ge)
  then have "of_int k * ?q \<le> of_int (roundTiesToEven (x / ?q)) * ?q"
    using q by (simp add: mult_right_mono)
  then show ?thesis using assms(1) by (simp add: double_def)
qed

lemma double_nonneg:
  assumes "0 \<le> x"
  shows "0 \<le> double x"
proof (cases "x = 0")
  case True
  then show ?thesis by (simp add: double_def)
next
  case False
  then show ?thesis using double_lower [of x 0] assms by simp
qed

lemma pow2_floor_log_le:
  assumes "0 < x"
  shows "2 powr of_int \<lfloor>log 2 x\<rfloor> \<le> x"
proof -
  have "2 powr of_int \<lfloor>log 2 x\<rfloor> \<le> 2 powr log 2 x"
    by (simp add: powr_mono)
  then show ?thesis using assms by simp
qed

lemma powr_neg_nat: "(2::real) powr (- real n) = 1 / 2 ^ n"
  by (simp add: powr_minus powr_realpow inverse_eq_divide)

lemma powr_one_minus_nat: "(2::real) powr (1 - real n) = 2 / 2 ^ n"
  using powr_add [of "2::real" 1 "- real n"] by (simp add: powr_neg_nat)

lemma powr_nat_plus_one: "(2::real) powr (real n + 1) = 2 * 2 ^ n"
  by (simp add: powr_add powr_realpow)

lemma double_ge_nat:
  assumes "1 \<le> c" and "c \<le> 2 ^ 53" and "real c \<le> x"
  shows "real c \<le> double x"
proof -
  have x: "1 \<le> x" using assms(1,3) by linarith
  then have x0: "0 < x" "x \<noteq> 0" "\<bar>x\<bar> = x" by simp_all
  define e where "e = \<lfloor>log 2 x\<rfloor>"
  have e0: "0 \<le> e" using x by (simp add: e_def)
  have t: "ulp_exponent x = e - 52"
    using e0 by (simp add: ulp_exponent_def e_def x0)
  have ex: "2 powr of_int e \<le> x"
    unfolding e_def using x0(1) by (rule pow2_floor_log_le)
  show ?thesis
  proof (cases "e \<le> 52")
    case True
    define n where "n = nat (52 - e)"
    have n: "e - 52 = - int n" using True by (simp add: n_def)
    have q: "(2::real) powr of_int (ulp_exponent x) = 1 / 2 ^ n"
      unfolding t n by (simp add: powr_neg_nat)
    have k: "of_int (int c * 2 ^ n) * 2 powr of_int (ulp_exponent x) = real c"
      unfolding q by simp
    from double_lower [OF x0(2), of "int c * 2 ^ n"] assms(3)
    show ?thesis unfolding k .
  next
    case False
    then have e53: "53 \<le> e" by simp
    have k: "(of_int (2 ^ 52) :: real) * 2 powr of_int (ulp_exponent x) = 2 powr of_int e"
      unfolding t using powr_add [of "2::real" 52 "of_int e - 52"] by simp
    have "2 powr of_int e \<le> double x"
      using double_lower [OF x0(2), of "2 ^ 52"] ex unfolding k by simp
    moreover have "(2::real) powr 53 \<le> 2 powr of_int e"
      by (rule powr_mono) (use e53 in simp_all)
    moreover have "real c \<le> 2 powr 53"
    proof -
      have "real c \<le> real (2 ^ 53)" using assms(2) by (simp only: of_nat_le_iff)
      then show ?thesis by simp
    qed
    ultimately show ?thesis by linarith
  qed
qed

text \<open>The double nearest to a number of a known binade.\<close>

lemma ulp_exponent_binade:
  assumes "2 powr of_int e \<le> \<bar>x\<bar>" and "\<bar>x\<bar> < 2 powr of_int (e + 1)"
  shows "ulp_exponent x = max (e - 52) (- 1074)"
proof -
  have "0 < \<bar>x\<bar>" using assms(1) by (smt (verit) powr_gt_zero)
  then have "\<lfloor>log 2 \<bar>x\<bar>\<rfloor> = e"
    using assms by (simp add: floor_log_eq_powr_iff)
  then show ?thesis by (simp add: ulp_exponent_def)
qed

lemma double_below_one:
  assumes "1 / 2 ^ n \<le> \<bar>x\<bar>" and "\<bar>x\<bar> < 2 / 2 ^ n" and "n \<le> 1022"
  shows "double x = of_int (roundTiesToEven (x * 2 ^ (n + 52))) / 2 ^ (n + 52)"
proof -
  have a: "2 powr of_int (- int n) \<le> \<bar>x\<bar>"
    using assms(1) by (simp add: powr_neg_nat)
  have "(2::real) powr of_int (- int n + 1) = 2 / 2 ^ n"
    by (simp add: powr_one_minus_nat)
  then have b: "\<bar>x\<bar> < 2 powr of_int (- int n + 1)"
    using assms(2) by simp
  have "ulp_exponent x = max (- int n - 52) (- 1074)"
    using ulp_exponent_binade [OF a b] by simp
  then have u: "ulp_exponent x = - int (n + 52)"
    using assms(3) by simp
  have q: "(2::real) powr of_int (ulp_exponent x) = 1 / 2 ^ (n + 52)"
    unfolding u using powr_neg_nat [of "n + 52"] by simp
  have "x \<noteq> 0" using assms(1) by (smt (verit) divide_pos_pos zero_less_power)
  then show ?thesis unfolding double_def q by simp
qed

lemma double_above_one:
  assumes "2 ^ n \<le> \<bar>x\<bar>" and "\<bar>x\<bar> < 2 * 2 ^ n" and "n \<le> 52"
  shows "double x = of_int (roundTiesToEven (x * 2 ^ (52 - n))) / 2 ^ (52 - n)"
proof -
  have a: "2 powr of_int (int n) \<le> \<bar>x\<bar>"
    using assms(1) by (simp add: powr_realpow)
  have "(2::real) powr of_int (int n + 1) = 2 * 2 ^ n"
    by (simp add: powr_nat_plus_one)
  then have b: "\<bar>x\<bar> < 2 powr of_int (int n + 1)"
    using assms(2) by simp
  have "ulp_exponent x = max (int n - 52) (- 1074)"
    using ulp_exponent_binade [OF a b] by simp
  then have u: "ulp_exponent x = - int (52 - n)"
    using assms(3) by simp
  have q: "(2::real) powr of_int (ulp_exponent x) = 1 / 2 ^ (52 - n)"
    unfolding u using powr_neg_nat [of "52 - n"] by simp
  have "x \<noteq> 0" using assms(1) by (smt (verit) zero_less_power)
  then show ?thesis unfolding double_def q by simp
qed

lemma double_085: "double 0.85 = 7656119366529843 / 2 ^ 53"
  using double_below_one [of 1 "0.85"] by (simp add: roundTiesToEven_def Let_def)

lemma double_095: "double 0.95 = 8556839292003942 / 2 ^ 53"
  using double_below_one [of 1 "0.95"] by (simp add: roundTiesToEven_def Let_def)

lemma double_09: "double 0.9 = 8106479329266893 / 2 ^ 53"
  using double_below_one [of 1 "0.9"] by (simp add: roundTiesToEven_def Let_def)

lemma sum_085_095: "fadd (fadd 0 (double 0.85)) (double 0.95) = 8106479329266892 / 2 ^ 52"
proof -
  have 1: "fadd 0 (double 0.85) = 7656119366529843 / 2 ^ 53"
    unfolding fadd_def double_085
    using double_below_one [of 1 "7656119366529843 / 2 ^ 53"]
    by (simp add: roundTiesToEven_def Let_def)
  show ?thesis
    unfolding 1 unfolding fadd_def double_095
    using double_above_one [of 0 "7656119366529843 / 2 ^ 53 + 8556839292003942 / 2 ^ 53"]
    by (simp add: roundTiesToEven_def Let_def)
qed

lemma avg_085_095: "fdiv (8106479329266892 / 2 ^ 52) 2 = 8106479329266892 / 2 ^ 53"
  unfolding fdiv_def
  using double_below_one [of 1 "8106479329266892 / 2 ^ 52 / 2"]
  by (simp add: roundTiesToEven_def Let_def)

section \<open>Matcher: the loops as filters\<close>

lemma str_includes_sublist: "str_includes hay needle \<longleftrightarrow> sublist needle hay"
  by (induction hay) (auto simp: sublist_Cons_right)

lemma occurs_ci_includes:
  "occurs_ci i content \<longleftrightarrow> str_includes (toLowerCase content) (toLowerCase i)"
  by (simp add: occurs_ci_def str_includes_sublist sublist_def)

lemma foldl_push_filter:
  "foldl (\<lambda>acc x. if P x then acc @ [x] else acc) acc xs = acc @ filter P xs"
  by (induction xs arbitrary: acc) auto

lemma foldl_push_map_filter:
  "foldl (\<lambda>acc x. if P x then acc @ [f x] else acc) acc xs = acc @ map f (filter P xs)"
  by (induction xs arbitrary: acc) auto

lemma matchIndicators_filter:
  "matchIndicators (toLowerCase content) inds = filter (\<lambda>i. occurs_ci i content) inds"
  unfolding matchIndicators_def by (simp add: foldl_push_filter occurs_ci_includes)

lemma matchPatterns_char:
  "matchPatterns content patterns =
     map (\<lambda>p. \<lparr>pattern = p, matches = filter (\<lambda>i. occurs_ci i content) (indicators p)\<rparr>)
       (matched_patterns content patterns)"
proof -
  let ?found = "\<lambda>p. filter (\<lambda>i. occurs_ci i content) (indicators p)"
  have "matchPatterns content patterns =
     foldl (\<lambda>detected p. if ?found p \<noteq> [] then detected @ [\<lparr>pattern = p, matches = ?found p\<rparr>]
                           else detected) [] patterns"
    unfolding matchPatterns_def Let_def matchIndicators_filter by simp
  also have "\<dots> = map (\<lambda>p. \<lparr>pattern = p, matches = ?found p\<rparr>) (filter (\<lambda>p. ?found p \<noteq> []) patterns)"
    by (simp add: foldl_push_map_filter)
  also have "(\<lambda>p. ?found p \<noteq> []) = (\<lambda>p. \<exists>i\<in>set (indicators p). occurs_ci i content)"
    by (auto simp: filter_empty_conv)
  finally show ?thesis by (simp add: matched_patterns_def)
qed

lemma map_pattern_matchPatterns:
  "map pattern (matchPatterns content patterns) = matched_patterns content patterns"
  by (simp add: matchPatterns_char comp_def)

lemma length_matchPatterns:
  "length (matchPatterns content patterns) = length (matched_patterns content patterns)"
  by (simp add: matchPatterns_char)

lemma matchPatterns_Nil_iff:
  "matchPatterns content patterns = [] \<longleftrightarrow> matched_patterns content patterns = []"
  by (simp add: matchPatterns_char)

lemma foldl_weight_map:
  "foldl (\<lambda>sum p. fadd sum (severity_weight (pattern p))) acc detected
     = foldl fadd acc (map severity_weight (map pattern detected))"
  by (induction detected arbitrary: acc) auto

lemma totalWeight_matched:
  "foldl (\<lambda>sum p. fadd sum (severity_weight (pattern p))) 0 (matchPatterns content patterns)
     = foldl fadd 0 (map severity_weight (matched_patterns content patterns))"
  by (simp add: foldl_weight_map map_pattern_matchPatterns)

lemma foldl_fadd_nonneg:
  assumes "0 \<le> acc" and "\<forall>w\<in>set ws. 0 \<le> w"
  shows "0 \<le> foldl fadd acc ws"
  using assms
proof (induction ws arbitrary: acc)
  case Nil
  then show ?case by simp
next
  case (Cons w ws)
  have "0 \<le> fadd acc w"
    using Cons.prems by (simp add: fadd_def double_nonneg)
  then show ?case using Cons by simp
qed

lemma analyze_unavailable:
  "analyzeThreatWithNLP None content sourceType =
     \<lparr>threatType = ''none'', severityLevel = Safe, detectedPatterns = [], confidenceScore = 0,
      nlpExplanation = ''No threats detected. This communication appears safe.''\<rparr>"
  by (simp add: analyzeThreatWithNLP_def)

lemma analyze_no_match:
  assumes "matched_patterns content patterns = []"
  shows "analyzeThreatWithNLP (Some patterns) content sourceType =
     \<lparr>threatType = ''none'', severityLevel = Safe, detectedPatterns = [], confidenceScore = 95,
      nlpExplanation = ''Analysis complete: No social engineering indicators detected. This communication appears legitimate and safe.''\<rparr>"
  using assms
  by (simp add: analyzeThreatWithNLP_def Let_def matchPatterns_Nil_iff)

lemma analyze_match_confidence:
  assumes "matched_patterns content patterns \<noteq> []"
  shows "confidenceScore (analyzeThreatWithNLP (Some patterns) content sourceType) =
     min 95
       (fadd (fadd 50 (fmul (real (length (matched_patterns content patterns))) 15))
          (fmul (fdiv (foldl fadd 0 (map severity_weight (matched_patterns content patterns)))
                   (real (length (matched_patterns content patterns)))) 20))"
  using assms
  by (simp add: analyzeThreatWithNLP_def Let_def length_matchPatterns totalWeight_matched
      matchPatterns_Nil_iff)

lemma analyze_match_severity:
  assumes "matched_patterns content patterns \<noteq> []"
  shows "severityLevel (analyzeThreatWithNLP (Some patterns) content sourceType) =
     (let a = fdiv (foldl fadd 0 (map severity_weight (matched_patterns content patterns)))
                (real (length (matched_patterns content patterns)))
      in if a \<ge> double 0.9 then Critical else if a \<ge> 0.75 then High
         else if a \<ge> 0.5 then Medium else Low)"
  using assms
  by (simp add: analyzeThreatWithNLP_def Let_def length_matchPatterns totalWeight_matched
      matchPatterns_Nil_iff)

lemma analyze_match_threatType:
  assumes "matched_patterns content patterns = p # rest"
  shows "threatType (analyzeThreatWithNLP (Some patterns) content sourceType) = pattern_type p"
proof -
  have "matchPatterns content patterns \<noteq> []"
    using assms by (simp add: matchPatterns_Nil_iff)
  moreover have "pattern (hd (matchPatterns content patterns)) = p"
    using assms by (simp add: matchPatterns_char)
  ultimately show ?thesis
    by (simp add: analyzeThreatWithNLP_def Let_def)
qed

lemma find_filter_Cons:
  "find P xs = Some p \<Longrightarrow> \<exists>rest. filter P xs = p # rest"
  by (induction xs) (auto split: if_splits)

lemma lower_urgent: "toLowerCase urgent_content = ''urgent: verify your account now, click http://bit.ly/xyz''"
  by (simp add: toLowerCase_def char_of_def bit_Suc_0_iff urgent_content_def)

lemma lower_coffee: "toLowerCase coffee_content = ''let'' @ [CHR 0x27] @ ''s meet for coffee tomorrow''"
  by (simp add: toLowerCase_def char_of_def bit_Suc_0_iff coffee_content_def)

lemma lower_inds: "map toLowerCase (indicators urgent_pattern @ indicators links_pattern) = indicators urgent_pattern @ indicators links_pattern"
  by (simp add: toLowerCase_def char_of_def bit_Suc_0_iff urgent_pattern_def links_pattern_def)

lemma matched_urgent:
  "matched_patterns urgent_content seeded_catalog = [urgent_pattern, links_pattern]"
  unfolding matched_patterns_def occurs_ci_includes lower_urgent
  by (simp add: seeded_catalog_def urgent_pattern_def links_pattern_def toLowerCase_def
      char_of_def bit_Suc_0_iff)

lemma matched_coffee:
  "matched_patterns coffee_content seeded_catalog = []"
  unfolding matched_patterns_def occurs_ci_includes lower_coffee
  by (simp add: seeded_catalog_def urgent_pattern_def links_pattern_def toLowerCase_def
      char_of_def bit_Suc_0_iff)

lemma lower_click: "toLowerCase click_content = ''click here http://bit.ly/x''"
  by (simp add: toLowerCase_def char_of_def bit_Suc_0_iff click_content_def)

lemma matched_click:
  "matched_patterns click_content seeded_catalog = [links_pattern]"
  unfolding matched_patterns_def occurs_ci_includes lower_click
  by (simp add: seeded_catalog_def urgent_pattern_def links_pattern_def toLowerCase_def
      char_of_def bit_Suc_0_iff)

lemma found_click:
  "filter (\<lambda>i. occurs_ci i click_content) (indicators links_pattern) = [''bit.ly'', ''click here'']"
  unfolding occurs_ci_includes lower_click
  by (simp add: links_pattern_def toLowerCase_def char_of_def bit_Suc_0_iff)

lemma lower_notice: "toLowerCase notice_content = ''official notice: wire transfer''"
  by (simp add: toLowerCase_def char_of_def bit_Suc_0_iff notice_content_def)

lemma matched_notice:
  "matched_patterns notice_content full_catalog = [authority_pattern, financial_pattern]"
  unfolding matched_patterns_def occurs_ci_includes lower_notice
  by (simp add: full_catalog_def urgent_pattern_def authority_pattern_def links_pattern_def
      financial_pattern_def credential_pattern_def emotional_pattern_def toLowerCase_def
      char_of_def bit_Suc_0_iff)

lemma hd_generateNLPExplanation:
  "hd (generateNLPExplanation detected level sourceType) = CHR 0xF0"
  by (simp add: generateNLPExplanation_def Let_def)

lemma generateNLPExplanation_neq:
  assumes "hd s \<noteq> CHR 0xF0"
  shows "generateNLPExplanation detected level sourceType \<noteq> s"
  using assms hd_generateNLPExplanation [of detected level sourceType] by auto

section \<open>Stats aggregator: one call and sequences of calls\<close>

lemma severity_name_inj: "severity_name s = severity_name s' \<longleftrightarrow> s = s'"
  by (cases s; cases s') simp_all

lemma severity_name_safe: "severity_name s = ''safe'' \<longleftrightarrow> s = Safe"
  by (cases s) simp_all

lemma stats_for_map:
  assumes "\<And>r. stats_user_id (f r) = stats_user_id r \<and> date (f r) = date r"
  shows "stats_for u day (map f rows) = map f (stats_for u day rows)"
  by (induction rows) (simp_all add: stats_for_def assms)

lemma stats_for_append:
  "stats_for u day (rows @ rows') = stats_for u day rows @ stats_for u day rows'"
  by (simp add: stats_for_def)

lemma sum_obj_set:
  "sum_list (map snd (obj_set kvs k v)) =
     sum_list (map snd kvs) - (case obj_get kvs k of None \<Rightarrow> 0 | Some n \<Rightarrow> n) + (v::int)"
  by (induction kvs) auto

lemma obj_get_obj_set:
  "obj_get (obj_set kvs k v) k' = (if k' = k then Some v else obj_get kvs k')"
  by (induction kvs) auto

lemma updateUserStats_existing:
  assumes "stats_for u (today_of (client_now e)) (detection_stats d) = [ex]"
  shows "stats_for u (today_of (client_now e)) (detection_stats (updateUserStats e d u level)) =
     [ex\<lparr>total_scanned := total_scanned ex + 1,
         threats_detected := threats_detected ex + (if level \<noteq> ''safe'' then 1 else 0),
         threats_by_severity :=
           obj_set (threats_by_severity ex) level
             ((case obj_get (threats_by_severity ex) level of None \<Rightarrow> 0 | Some n \<Rightarrow> n) + 1)\<rparr>]"
proof -
  let ?f = "\<lambda>r. if stats_id r = stats_id ex
                 then r\<lparr>total_scanned := total_scanned ex + 1,
                        threats_detected := threats_detected ex + (if level \<noteq> ''safe'' then 1 else 0),
                        threats_by_severity :=
                          obj_set (threats_by_severity ex) level
                            ((case obj_get (threats_by_severity ex) level of None \<Rightarrow> 0 | Some n \<Rightarrow> n) + 1)\<rparr>
                 else r"
  have "detection_stats (updateUserStats e d u level) = map ?f (detection_stats d)"
    using assms by (simp add: updateUserStats_def maybeSingle_def Let_def)
  moreover have "stats_for u (today_of (client_now e)) (map ?f (detection_stats d)) =
      map ?f (stats_for u (today_of (client_now e)) (detection_stats d))"
    by (rule stats_for_map) simp
  ultimately show ?thesis using assms by simp
qed

lemma updateUserStats_absent:
  assumes "stats_for u (today_of (client_now e)) (detection_stats d) = []"
  shows "stats_for u (today_of (client_now e)) (detection_stats (updateUserStats e d u level)) =
     [\<lparr>stats_id = new_stats_id e, stats_user_id = u, date = today_of (client_now e),
       total_scanned = 1, threats_detected = (if level \<noteq> ''safe'' then 1 else 0),
       false_positives = 0,
       threats_by_severity =
         obj_set [(''safe'', 0), (''low'', 0), (''medium'', 0), (''high'', 0), (''critical'', 0)] level 1\<rparr>]"
  using assms
  by (simp add: updateUserStats_def maybeSingle_def Let_def insert_stats_def stats_for_append)
     (simp add: stats_for_def)

lemma fresh_by_severity:
  "obj_get (obj_set [(''safe'', 0), (''low'', 0), (''medium'', 0), (''high'', 0), (''critical'', 0)]
              (severity_name s) (1::int)) (severity_name s') = Some (if s' = s then 1 else 0)"
  by (cases s; cases s') simp_all

lemma fresh_sum:
  "sum_list (map snd (obj_set [(''safe'', 0), (''low'', 0), (''medium'', 0), (''high'', 0), (''critical'', 0)]
              (severity_name s) (1::int))) = 1"
  by (cases s) simp_all

lemma record_scans_existing:
  assumes "stats_for u day (detection_stats d) = [r0]"
    and "sum_by_severity r0 = total_scanned r0"
    and "\<forall>c\<in>set calls. today_of (client_now (fst c)) = day"
  shows "\<exists>r. stats_for u day (detection_stats (record_scans d u calls)) = [r]
           \<and> sum_by_severity r = total_scanned r
           \<and> total_scanned r = total_scanned r0 + int (length calls)"
  using assms
proof (induction calls arbitrary: d r0)
  case Nil
  then show ?case by simp
next
  case (Cons c calls)
  obtain e s where c: "c = (e, s)" by (cases c)
  have day: "today_of (client_now e) = day"
    using Cons.prems(3) c by simp
  let ?r1 = "r0\<lparr>total_scanned := total_scanned r0 + 1,
         threats_detected := threats_detected r0 + (if severity_name s \<noteq> ''safe'' then 1 else 0),
         threats_by_severity :=
           obj_set (threats_by_severity r0) (severity_name s)
             ((case obj_get (threats_by_severity r0) (severity_name s) of None \<Rightarrow> 0 | Some n \<Rightarrow> n) + 1)\<rparr>"
  have 1: "stats_for u day (detection_stats (updateUserStats e d u (severity_name s))) = [?r1]"
    using updateUserStats_existing [of u e d r0 "severity_name s"] Cons.prems(1) day by simp
  have 2: "sum_by_severity ?r1 = total_scanned ?r1"
    using Cons.prems(2) by (simp add: sum_by_severity_def sum_obj_set)
  have 3: "\<forall>c\<in>set calls. today_of (client_now (fst c)) = day"
    using Cons.prems(3) by simp
  from Cons.IH [OF 1 2 3] show ?case
    by (auto simp: c)
qed

lemma record_scans_absent:
  assumes "stats_for u day (detection_stats d) = []"
    and "calls \<noteq> []"
    and "\<forall>c\<in>set calls. today_of (client_now (fst c)) = day"
  shows "\<exists>r. stats_for u day (detection_stats (record_scans d u calls)) = [r]
           \<and> sum_by_severity r = total_scanned r
           \<and> total_scanned r = int (length calls)"
proof -
  obtain e s rest where calls: "calls = (e, s) # rest"
    using assms(2) by (cases calls) auto
  have day: "today_of (client_now e) = day"
    using assms(3) calls by simp
  let ?r1 = "\<lparr>stats_id = new_stats_id e, stats_user_id = u, date = today_of (client_now e),
       total_scanned = 1, threats_detected = (if severity_name s \<noteq> ''safe'' then 1 else 0),
       false_positives = 0,
       threats_by_severity =
         obj_set [(''safe'', 0), (''low'', 0), (''medium'', 0), (''high'', 0), (''critical'', 0)]
           (severity_name s) 1\<rparr>"
  have 1: "stats_for u day (detection_stats (updateUserStats e d u (severity_name s))) = [?r1]"
    using updateUserStats_absent [of u e d "severity_name s"] assms(1) day by simp
  have 2: "sum_by_severity ?r1 = total_scanned ?r1"
    by (simp add: sum_by_severity_def fresh_sum)
  have 3: "\<forall>c\<in>set rest. today_of (client_now (fst c)) = day"
    using assms(3) calls by simp
  from record_scans_existing [OF 1 2 3] show ?thesis
    by (auto simp: calls)
qed

lemma updateUserStats_threat_detections:
  "threat_detections (updateUserStats e d u level) = threat_detections d"
  by (simp add: updateUserStats_def Let_def split: option.splits)

lemma updateUserStats_io_log:
  "io_log (updateUserStats e d u level) = io_log d @ [SelectStats, UpdateStats]
   \<or> io_log (updateUserStats e d u level) = io_log d @ [SelectStats, InsertStats]"
  by (simp add: updateUserStats_def Let_def split: option.splits)

section \<open>Scan orchestrator: what a call does to the tables and the trace\<close>

lemma scanCommunication_io_prefix:
  "\<exists>evs. io_log (snd (scanCommunication e d userId content sourceType)) =
           io_log d @ SelectPatterns # InsertDetection # evs"
proof (cases "insert_error e")
  case None
  let ?a = "analyzeThreatWithNLP (patterns_data e) content sourceType"
  let ?row = "\<lparr>threat_id = new_threat_id e, user_id = userId,
                 threat_type = threatType ?a, severity_level = severityLevel ?a,
                 source_type = sourceType, source_content = content,
                 detected_patterns = detectedPatterns ?a,
                 confidence_score = confidenceScore ?a,
                 nlp_explanation = nlpExplanation ?a, status = New,
                 detected_at = db_now e, resolved_at = None\<rparr>"
  let ?d3 = "d\<lparr>io_log := io_log d @ [SelectPatterns, InsertDetection],
               threat_detections := threat_detections d @ [?row]\<rparr>"
  have "snd (scanCommunication e d userId content sourceType) =
          updateUserStats e ?d3 userId (severity_name (severityLevel ?a))"
    using None by (simp add: scanCommunication_def Let_def)
  then show ?thesis
    using updateUserStats_io_log [of e ?d3 userId "severity_name (severityLevel ?a)"] by auto
next
  case (Some err)
  then show ?thesis by (simp add: scanCommunication_def Let_def)
qed

lemma scanCommunication_success:
  assumes "insert_error e = None"
  shows "\<exists>row. fst (scanCommunication e d userId content sourceType) = Some row
           \<and> source_content row = content \<and> source_type row = sourceType \<and> status row = New
           \<and> threat_detections (snd (scanCommunication e d userId content sourceType)) =
               threat_detections d @ [row]"
  using assms
  by (simp add: scanCommunication_def Let_def updateUserStats_threat_detections)


lemma lower_blank: "toLowerCase blank_content = ''  ''"
  by (simp add: toLowerCase_def char_of_def bit_Suc_0_iff blank_content_def)

section \<open>The claims\<close>

subsection \<open>C1: confidence and severity of a scan with matches\<close>

text \<open>
  Claim C1 says that the severity is critical when the mean weight of the matched patterns
  is at least 0.90, the bound included. The code takes the mean in binary64. The content
  matches the rows stored with the weights 0.85 and 0.95 and no other row of the
  catalog; their mean is 0.90, the computed mean is 8106479329266892 / 2 ^ 53
  (printed 0.8999999999999999), one step below the double of the literal \<open>0.9\<close>, and the
  severity is high.
\<close>

theorem boundary_mean_scored_high:
  "matched_patterns notice_content full_catalog = [authority_pattern, financial_pattern]
   \<and> severity_weight authority_pattern = double 0.85
   \<and> severity_weight financial_pattern = double 0.95
   \<and> (0.85 + 0.95) / 2 = (0.90 :: real)
   \<and> fdiv (fadd (fadd 0 (double 0.85)) (double 0.95)) 2 = 8106479329266892 / 2 ^ 53
   \<and> double 0.9 = 8106479329266893 / 2 ^ 53
   \<and> severityLevel (analyzeThreatWithNLP (Some full_catalog) notice_content ''email'') = High"
proof -
  have m: "matched_patterns notice_content full_catalog \<noteq> []"
    by (simp add: matched_notice)
  have a: "fdiv (fadd (fadd 0 (double 0.85)) (double 0.95)) 2 = 8106479329266892 / 2 ^ 53"
    by (simp only: sum_085_095 avg_085_095)
  have w: "severity_weight authority_pattern = double 0.85"
    "severity_weight financial_pattern = double 0.95"
    by (simp_all add: authority_pattern_def financial_pattern_def)
  have t: "foldl fadd 0 (map severity_weight [authority_pattern, financial_pattern]) =
      fadd (fadd 0 (double 0.85)) (double 0.95)"
    by (simp only: list.map foldl_Cons foldl_Nil w)
  have l: "real (length [authority_pattern, financial_pattern]) = 2"
    by simp
  have "severityLevel (analyzeThreatWithNLP (Some full_catalog) notice_content ''email'') = High"
    unfolding analyze_match_severity [OF m] matched_notice t l a double_09 Let_def
    by simp
  then show ?thesis
    using matched_notice w a double_09 by simp
qed

subsection \<open>C2: the two safe outcomes\<close>

text \<open>
  Claim C2. Without a pattern list (the query gave \<open>null\<close>) the result is safe with
  confidence 0 and threat type \<open>none\<close>; with a pattern list of which nothing matches, the
  result is safe with confidence 95 and threat type \<open>none\<close>.
\<close>

theorem safe_outcomes:
  "severityLevel (analyzeThreatWithNLP None content sourceType) = Safe
   \<and> confidenceScore (analyzeThreatWithNLP None content sourceType) = 0
   \<and> threatType (analyzeThreatWithNLP None content sourceType) = ''none''
   \<and> (matched_patterns content patterns = [] \<longrightarrow>
        severityLevel (analyzeThreatWithNLP (Some patterns) content sourceType) = Safe
        \<and> confidenceScore (analyzeThreatWithNLP (Some patterns) content sourceType) = 95
        \<and> threatType (analyzeThreatWithNLP (Some patterns) content sourceType) = ''none'')"
  by (simp add: analyze_unavailable analyze_no_match)

theorem safe_outcomes_witness:
  "matched_patterns coffee_content seeded_catalog = []
   \<and> confidenceScore (analyzeThreatWithNLP None coffee_content ''email'') = 0
   \<and> severityLevel (analyzeThreatWithNLP (Some seeded_catalog) coffee_content ''email'') = Safe
   \<and> confidenceScore (analyzeThreatWithNLP (Some seeded_catalog) coffee_content ''email'') = 95
   \<and> threatType (analyzeThreatWithNLP (Some seeded_catalog) coffee_content ''email'') = ''none''
   \<and> confidenceScore (analyzeThreatWithNLP (Some []) coffee_content ''email'') = 95"
  using safe_outcomes [of coffee_content "''email''" seeded_catalog]
    safe_outcomes [of coffee_content "''email''" "[]"] matched_coffee
  by (simp add: matched_patterns_def)

subsection \<open>C3: the threat type is that of the first match in catalog order\<close>

text \<open>
  Claim C3. With at least one match, the threat type is the \<open>pattern_type\<close> of the first
  pattern of the catalog that matches, whatever the weights of the later matches.
\<close>

theorem threat_type_first_match:
  assumes "find (\<lambda>p. \<exists>i\<in>set (indicators p). occurs_ci i content) patterns = Some p"
  shows "threatType (analyzeThreatWithNLP (Some patterns) content sourceType) = pattern_type p"
proof -
  obtain rest where "matched_patterns content patterns = p # rest"
    using find_filter_Cons [OF assms] by (auto simp: matched_patterns_def)
  then show ?thesis by (rule analyze_match_threatType)
qed

text \<open>
  In the scenario the first match has weight 0.75 and a later match has weight 0.90; the
  threat type is that of the first.
\<close>

theorem threat_type_first_match_witness:
  "find (\<lambda>p. \<exists>i\<in>set (indicators p). occurs_ci i urgent_content) seeded_catalog = Some urgent_pattern
   \<and> links_pattern \<in> set (matched_patterns urgent_content seeded_catalog)
   \<and> severity_weight urgent_pattern < severity_weight links_pattern
   \<and> threatType (analyzeThreatWithNLP (Some seeded_catalog) urgent_content ''email'') = ''urgency_manipulation''"
proof -
  have "filter (\<lambda>p. \<exists>i\<in>set (indicators p). occurs_ci i urgent_content) seeded_catalog
          = [urgent_pattern, links_pattern]"
    using matched_urgent by (simp add: matched_patterns_def)
  then have "\<exists>i\<in>set (indicators urgent_pattern). occurs_ci i urgent_content"
    by (auto simp: seeded_catalog_def split: if_splits)
  then have f: "find (\<lambda>p. \<exists>i\<in>set (indicators p). occurs_ci i urgent_content) seeded_catalog
          = Some urgent_pattern"
    by (simp add: seeded_catalog_def)
  show ?thesis
    using f threat_type_first_match [OF f, of "''email''"]
    by (simp add: matched_urgent) (simp add: urgent_pattern_def links_pattern_def double_09)
qed

subsection \<open>C4: the matcher\<close>

text \<open>
  Claim C4. The patterns of the match results are exactly the patterns of the catalog with
  at least one indicator occurring case-insensitively in the content, in catalog order;
  each result carries all the occurring indicators of its pattern, in the order of their
  declaration.
\<close>

theorem matcher_characterisation:
  "map pattern (matchPatterns content patterns) =
     filter (\<lambda>p. \<exists>i\<in>set (indicators p). occurs_ci i content) patterns
   \<and> (\<forall>m\<in>set (matchPatterns content patterns).
         matches m = filter (\<lambda>i. occurs_ci i content) (indicators (pattern m)))
   \<and> ((\<exists>m\<in>set (matchPatterns content patterns). pattern m = p) \<longleftrightarrow>
         p \<in> set patterns \<and> (\<exists>i\<in>set (indicators p). occurs_ci i content))"
proof -
  have 1: "map pattern (matchPatterns content patterns) =
     filter (\<lambda>p. \<exists>i\<in>set (indicators p). occurs_ci i content) patterns"
    using map_pattern_matchPatterns [of content patterns] by (simp add: matched_patterns_def)
  have 2: "\<forall>m\<in>set (matchPatterns content patterns).
         matches m = filter (\<lambda>i. occurs_ci i content) (indicators (pattern m))"
    by (auto simp: matchPatterns_char)
  have "(\<exists>m\<in>set (matchPatterns content patterns). pattern m = p) \<longleftrightarrow>
          p \<in> set (map pattern (matchPatterns content patterns))"
    by force
  then have 3: "(\<exists>m\<in>set (matchPatterns content patterns). pattern m = p) \<longleftrightarrow>
         p \<in> set patterns \<and> (\<exists>i\<in>set (indicators p). occurs_ci i content)"
    unfolding 1 by simp
  from 1 2 3 show ?thesis by blast
qed

text \<open>
  The content has \<open>click here\<close> before \<open>bit.ly\<close>; the result lists them in the order of
  the pattern's declaration.
\<close>

theorem matcher_characterisation_witness:
  "map pattern (matchPatterns click_content seeded_catalog) = [links_pattern]
   \<and> map matches (matchPatterns click_content seeded_catalog) = [[''bit.ly'', ''click here'']]"
proof -
  have f: "filter (\<lambda>p. \<exists>i\<in>set (indicators p). occurs_ci i click_content) seeded_catalog
          = [links_pattern]"
    using matched_click by (simp add: matched_patterns_def)
  have 1: "map pattern (matchPatterns click_content seeded_catalog) = [links_pattern]"
    using matcher_characterisation [of click_content seeded_catalog] f by simp
  then obtain m where m: "matchPatterns click_content seeded_catalog = [m]"
    and p: "pattern m = links_pattern"
    by (auto simp: map_eq_Cons_conv)
  have "matches m = filter (\<lambda>i. occurs_ci i click_content) (indicators (pattern m))"
    using matcher_characterisation [of click_content seeded_catalog] m by simp
  then have 2: "matches m = [''bit.ly'', ''click here'']"
    using found_click p by simp
  from 1 2 m show ?thesis by simp
qed

subsection \<open>C5: status changes\<close>

text \<open>
  Claim C5 says that acknowledging fails unless the status is new and that resolving
  succeeds exactly from new or acknowledged. The two functions update the record whatever
  its status: a resolved record is acknowledged, and resolved again with a new time.
\<close>

theorem status_guard_counterexample:
  "map status (threat_detections resolved_db) = [Resolved]
   \<and> map status (threat_detections (markThreatAcknowledged resolved_db ''t0'')) = [Acknowledged]
   \<and> map resolved_at (threat_detections (markThreatAcknowledged resolved_db ''t0'')) =
       [Some ''2025-11-02T09:00:00.000Z'']
   \<and> map status (threat_detections (markThreatResolved later_env resolved_db ''t0'')) = [Resolved]
   \<and> map resolved_at (threat_detections (markThreatResolved later_env resolved_db ''t0'')) =
       [Some ''2025-11-03T18:00:00.000Z'']"
  by (simp add: markThreatAcknowledged_def markThreatResolved_def resolved_db_def
      resolved_record_def later_env_def)

text \<open>
  Claim C5, amended. \<open>markThreatAcknowledged\<close> sets the status of the record to
  acknowledged whatever it was and leaves \<open>resolved_at\<close> as it is; \<open>markThreatResolved\<close>
  sets the status to resolved and \<open>resolved_at\<close> to the current time whatever the status was.
  The restriction is in the threat card alone: it shows the acknowledge button only for a
  new record and a resolve button only for a new or acknowledged one.
\<close>

theorem status_updates_unconditional:
  assumes "i < length (threat_detections d)"
    and "threat_id (threat_detections d ! i) = threatId"
  shows "status (threat_detections (markThreatAcknowledged d threatId) ! i) = Acknowledged
         \<and> resolved_at (threat_detections (markThreatAcknowledged d threatId) ! i) =
             resolved_at (threat_detections d ! i)
         \<and> status (threat_detections (markThreatResolved e d threatId) ! i) = Resolved
         \<and> resolved_at (threat_detections (markThreatResolved e d threatId) ! i) = Some (client_now e)
         \<and> (AcknowledgeButton \<in> set (ThreatCard_buttons st) \<longleftrightarrow> st = New)
         \<and> (ResolveButton \<in> set (ThreatCard_buttons st) \<longleftrightarrow> st = New \<or> st = Acknowledged)"
  using assms
  by (auto simp: markThreatAcknowledged_def markThreatResolved_def ThreatCard_buttons_def)

theorem status_updates_unconditional_witness:
  "0 < length (threat_detections resolved_db)
   \<and> threat_id (threat_detections resolved_db ! 0) = ''t0''
   \<and> status (threat_detections resolved_db ! 0) = Resolved
   \<and> status (threat_detections (markThreatAcknowledged resolved_db ''t0'') ! 0) = Acknowledged
   \<and> status (threat_detections (markThreatResolved later_env resolved_db ''t0'') ! 0) = Resolved
   \<and> resolved_at (threat_detections (markThreatResolved later_env resolved_db ''t0'') ! 0) =
       Some ''2025-11-03T18:00:00.000Z''
   \<and> ThreatCard_buttons Resolved = []"
proof -
  have a: "0 < length (threat_detections resolved_db)"
    by (simp add: resolved_db_def)
  have b: "threat_id (threat_detections resolved_db ! 0) = ''t0''"
    by (simp add: resolved_db_def resolved_record_def)
  have c: "ThreatCard_buttons Resolved = []"
    using status_updates_unconditional [OF a b, of later_env Resolved]
    by (cases "ThreatCard_buttons Resolved") (auto simp: ThreatCard_buttons_def)
  from status_updates_unconditional [OF a b, of later_env Resolved] a b c
  show ?thesis
    by (simp add: resolved_db_def resolved_record_def later_env_def)
qed

subsection \<open>C6: the daily statistics\<close>

text \<open>
  Claim C6. For one user and one date: the first call creates the row with
  \<open>total_scanned = 1\<close>, \<open>false_positives = 0\<close>, \<open>threats_detected\<close> 1 unless the severity is
  safe, and \<open>threats_by_severity\<close> 1 at the scanned severity and 0 at the others; a later
  call adds 1 to \<open>total_scanned\<close> and to the entry of the scanned severity; after each call
  of a sequence that starts without a row, the entries of \<open>threats_by_severity\<close> sum to
  \<open>total_scanned\<close>, which is the number of calls so far.
\<close>

theorem record_scan_invariant:
  "(stats_for userId (today_of (client_now e)) (detection_stats d) = [] \<longrightarrow>
      (\<exists>r. stats_for userId (today_of (client_now e))
               (detection_stats (updateUserStats e d userId (severity_name s))) = [r]
           \<and> total_scanned r = 1 \<and> false_positives r = 0
           \<and> threats_detected r = (if s \<noteq> Safe then 1 else 0)
           \<and> (\<forall>s'. obj_get (threats_by_severity r) (severity_name s') =
                      Some (if s' = s then 1 else 0))))
   \<and> (\<forall>ex. stats_for userId (today_of (client_now e)) (detection_stats d) = [ex] \<longrightarrow>
      (\<exists>r. stats_for userId (today_of (client_now e))
               (detection_stats (updateUserStats e d userId (severity_name s))) = [r]
           \<and> total_scanned r = total_scanned ex + 1
           \<and> obj_get (threats_by_severity r) (severity_name s) =
               Some ((case obj_get (threats_by_severity ex) (severity_name s) of
                        None \<Rightarrow> 0 | Some n \<Rightarrow> n) + 1)
           \<and> (\<forall>s'. s' \<noteq> s \<longrightarrow>
                 obj_get (threats_by_severity r) (severity_name s') =
                   obj_get (threats_by_severity ex) (severity_name s'))))
   \<and> (stats_for userId day (detection_stats d) = []
        \<and> (\<forall>c\<in>set calls. today_of (client_now (fst c)) = day) \<longrightarrow>
      (\<forall>n. 0 < n \<and> n \<le> length calls \<longrightarrow>
         (\<exists>r. stats_for userId day (detection_stats (record_scans d userId (take n calls))) = [r]
              \<and> sum_by_severity r = total_scanned r
              \<and> total_scanned r = int n)))"
proof (intro conjI impI allI)
  assume a: "stats_for userId (today_of (client_now e)) (detection_stats d) = []"
  show "\<exists>r. stats_for userId (today_of (client_now e))
               (detection_stats (updateUserStats e d userId (severity_name s))) = [r]
           \<and> total_scanned r = 1 \<and> false_positives r = 0
           \<and> threats_detected r = (if s \<noteq> Safe then 1 else 0)
           \<and> (\<forall>s'. obj_get (threats_by_severity r) (severity_name s') =
                      Some (if s' = s then 1 else 0))"
    by (simp add: updateUserStats_absent [OF a] fresh_by_severity severity_name_safe
        del: obj_set.simps)
next
  fix ex
  assume a: "stats_for userId (today_of (client_now e)) (detection_stats d) = [ex]"
  show "\<exists>r. stats_for userId (today_of (client_now e))
               (detection_stats (updateUserStats e d userId (severity_name s))) = [r]
           \<and> total_scanned r = total_scanned ex + 1
           \<and> obj_get (threats_by_severity r) (severity_name s) =
               Some ((case obj_get (threats_by_severity ex) (severity_name s) of
                        None \<Rightarrow> 0 | Some n \<Rightarrow> n) + 1)
           \<and> (\<forall>s'. s' \<noteq> s \<longrightarrow>
                 obj_get (threats_by_severity r) (severity_name s') =
                   obj_get (threats_by_severity ex) (severity_name s'))"
    by (simp add: updateUserStats_existing [OF a] obj_get_obj_set severity_name_inj)
next
  fix n
  assume a: "stats_for userId day (detection_stats d) = []
        \<and> (\<forall>c\<in>set calls. today_of (client_now (fst c)) = day)"
    and n: "0 < n \<and> n \<le> length calls"
  have 1: "take n calls \<noteq> []" using n by auto
  have 2: "\<forall>c\<in>set (take n calls). today_of (client_now (fst c)) = day"
    using a by (meson in_set_takeD)
  from record_scans_absent [OF _ 1 2, of userId d] a n
  show "\<exists>r. stats_for userId day (detection_stats (record_scans d userId (take n calls))) = [r]
              \<and> sum_by_severity r = total_scanned r
              \<and> total_scanned r = int n"
    by (simp add: min_absorb2)
qed

theorem record_scan_invariant_witness:
  "stats_for ''u1'' ''2025-11-03'' (detection_stats empty_db) = []
   \<and> map (\<lambda>c. today_of (client_now (fst c))) [(ok_env, High), (later_env, Safe)] =
       [''2025-11-03'', ''2025-11-03'']
   \<and> (\<exists>r. stats_for ''u1'' ''2025-11-03''
             (detection_stats (record_scans empty_db ''u1'' [(ok_env, High), (later_env, Safe)])) = [r]
          \<and> sum_by_severity r = total_scanned r \<and> total_scanned r = 2)"
proof -
  have a: "stats_for ''u1'' ''2025-11-03'' (detection_stats empty_db) = []"
    by (simp add: stats_for_def empty_db_def)
  have b: "\<forall>c\<in>set [(ok_env, High), (later_env, Safe)]. today_of (client_now (fst c)) = ''2025-11-03''"
    by (simp add: today_of_def ok_env_def later_env_def)
  from record_scan_invariant [of "''u1''" ok_env empty_db High "''2025-11-03''"
      "[(ok_env, High), (later_env, Safe)]"] a b
  have "\<forall>n. 0 < n \<and> n \<le> length [(ok_env, High), (later_env, Safe)] \<longrightarrow>
         (\<exists>r. stats_for ''u1'' ''2025-11-03''
                 (detection_stats (record_scans empty_db ''u1''
                    (take n [(ok_env, High), (later_env, Safe)]))) = [r]
              \<and> sum_by_severity r = total_scanned r
              \<and> total_scanned r = int n)"
    by blast
  from this [rule_format, of 2] a b show ?thesis by simp
qed

subsection \<open>C7: input validation of a scan\<close>

text \<open>
  Claim C7 says that a scan of blank content or of an unknown source type is rejected
  before any call to the outside. \<open>scanCommunication\<close> checks neither: for blank content
  and the source type \<open>bogus\<close> it queries the catalog, inserts the record and writes the
  statistics.
\<close>

theorem scan_validation_counterexample:
  "trim blank_content = []
   \<and> ''bogus'' \<notin> set (map source_type_name [Email, Message, Link, Other])
   \<and> map_option source_type (fst (scanCommunication ok_env empty_db ''u1'' blank_content ''bogus''))
       = Some ''bogus''
   \<and> map_option source_content (fst (scanCommunication ok_env empty_db ''u1'' blank_content ''bogus''))
       = Some blank_content
   \<and> io_log (snd (scanCommunication ok_env empty_db ''u1'' blank_content ''bogus''))
       = [SelectPatterns, InsertDetection, SelectStats, InsertStats]
   \<and> length (threat_detections (snd (scanCommunication ok_env empty_db ''u1'' blank_content ''bogus''))) = 1"
proof -
  have m: "matched_patterns blank_content seeded_catalog = []"
    unfolding matched_patterns_def occurs_ci_includes lower_blank
    by (simp add: seeded_catalog_def urgent_pattern_def links_pattern_def toLowerCase_def
        char_of_def bit_Suc_0_iff)
  have t: "trim blank_content = []"
    by (simp add: trim_def blank_content_def isWhiteSpace_def)
  have s: "scanCommunication ok_env empty_db ''u1'' blank_content ''bogus'' =
      (Some \<lparr>threat_id = ''t1'', user_id = ''u1'', threat_type = ''none'', severity_level = Safe,
             source_type = ''bogus'', source_content = blank_content, detected_patterns = [],
             confidence_score = 95,
             nlp_explanation = ''Analysis complete: No social engineering indicators detected. This communication appears legitimate and safe.'',
             status = New, detected_at = ''2025-11-03T10:19:26.100Z'', resolved_at = None\<rparr>,
       updateUserStats ok_env
         \<lparr>threat_detections =
            [\<lparr>threat_id = ''t1'', user_id = ''u1'', threat_type = ''none'', severity_level = Safe,
              source_type = ''bogus'', source_content = blank_content, detected_patterns = [],
              confidence_score = 95,
              nlp_explanation = ''Analysis complete: No social engineering indicators detected. This communication appears legitimate and safe.'',
              status = New, detected_at = ''2025-11-03T10:19:26.100Z'', resolved_at = None\<rparr>],
          detection_stats = [], io_log = [SelectPatterns, InsertDetection]\<rparr>
         ''u1'' ''safe'')"
    using analyze_no_match [OF m, of "''bogus''"]
    by (simp add: scanCommunication_def Let_def ok_env_def empty_db_def)
  show ?thesis
    unfolding s using t
    by (simp add: updateUserStats_def Let_def maybeSingle_def stats_for_def insert_stats_def)
qed

text \<open>
  Claim C7, amended. \<open>scanCommunication\<close> rejects no input: for every content and source
  type it queries the catalog and attempts the insert, and when the insert succeeds it
  returns the persisted record, which holds the content and the source type as given. The
  only check is in the caller \<open>handleScan\<close>: for content that is empty after trimming it
  returns without any call to the outside and without an error.
\<close>

theorem scan_accepts_any_input:
  "(\<exists>evs. io_log (snd (scanCommunication e d userId content sourceType)) =
           io_log d @ SelectPatterns # InsertDetection # evs)
   \<and> (insert_error e = None \<longrightarrow>
        (\<exists>row. fst (scanCommunication e d userId content sourceType) = Some row
           \<and> source_content row = content \<and> source_type row = sourceType \<and> status row = New
           \<and> threat_detections (snd (scanCommunication e d userId content sourceType)) =
               threat_detections d @ [row]))
   \<and> (trim content = [] \<longrightarrow> handleScan e d userId content st = d)"
  using scanCommunication_io_prefix [of e d userId content sourceType]
    scanCommunication_success [of e d userId content sourceType]
  by (simp add: handleScan_def)

theorem scan_accepts_any_input_witness:
  "insert_error ok_env = None \<and> trim blank_content = []
   \<and> (\<exists>row. fst (scanCommunication ok_env empty_db ''u1'' blank_content ''bogus'') = Some row
          \<and> source_content row = blank_content \<and> source_type row = ''bogus'')
   \<and> handleScan ok_env empty_db ''u1'' blank_content Email = empty_db"
proof -
  have e: "insert_error ok_env = None" by (simp add: ok_env_def)
  have t: "trim blank_content = []"
    by (simp add: trim_def blank_content_def isWhiteSpace_def)
  from scan_accepts_any_input [of ok_env empty_db "''u1''" blank_content "''bogus''" Email] e t
  show ?thesis by blast
qed

subsection \<open>C8: a failed insert skips the statistics\<close>

text \<open>
  Claim C8. When the insert of the record fails, the scan returns \<open>null\<close> and
  \<open>updateUserStats\<close> is not called: the statistics table is unchanged and the trace holds
  no read or write of it.
\<close>

theorem persist_failure_skips_stats:
  assumes "insert_error e = Some err"
  shows "fst (scanCommunication e d userId content sourceType) = None
         \<and> detection_stats (snd (scanCommunication e d userId content sourceType)) = detection_stats d
         \<and> threat_detections (snd (scanCommunication e d userId content sourceType)) = threat_detections d
         \<and> io_log (snd (scanCommunication e d userId content sourceType)) =
             io_log d @ [SelectPatterns, InsertDetection, ConsoleError]"
  using assms by (simp add: scanCommunication_def Let_def)

theorem persist_failure_skips_stats_witness:
  "insert_error failing_env = Some ''insert failed''
   \<and> scanCommunication failing_env empty_db ''u1'' click_content ''link'' =
       (None, \<lparr>threat_detections = [], detection_stats = [],
               io_log = [SelectPatterns, InsertDetection, ConsoleError]\<rparr>)"
proof -
  have e: "insert_error failing_env = Some ''insert failed''"
    by (simp add: failing_env_def)
  from persist_failure_skips_stats [OF e, of empty_db "''u1''" click_content "''link''"] e
  show ?thesis
    by (cases "scanCommunication failing_env empty_db ''u1'' click_content ''link''")
       (simp add: empty_db_def)
qed

subsection \<open>C9: the explanation of a safe result\<close>

text \<open>
  Claim C9 says that the explanation of a scan without matches uses the safe entry of the
  severity table and begins with its summary. The analysis returns its own sentence
  instead: it contains neither the safe summary nor the safe recommendation, and it is not
  the text of the explainer for an empty match list.
\<close>

theorem safe_explanation_counterexample:
  "matched_patterns coffee_content seeded_catalog = []
   \<and> \<not> prefix (severityDescription ''safe'')
          (nlpExplanation (analyzeThreatWithNLP (Some seeded_catalog) coffee_content ''email''))
   \<and> \<not> sublist (severityDescription ''safe'')
          (nlpExplanation (analyzeThreatWithNLP (Some seeded_catalog) coffee_content ''email''))
   \<and> \<not> sublist (recommendation ''safe'')
          (nlpExplanation (analyzeThreatWithNLP (Some seeded_catalog) coffee_content ''email''))
   \<and> nlpExplanation (analyzeThreatWithNLP (Some seeded_catalog) coffee_content ''email'')
       \<noteq> generateNLPExplanation [] ''safe'' ''email''"
proof -
  have e: "nlpExplanation (analyzeThreatWithNLP (Some seeded_catalog) coffee_content ''email'') =
      ''Analysis complete: No social engineering indicators detected. This communication appears legitimate and safe.''"
    by (simp add: analyze_no_match [OF matched_coffee])
  have 1: "\<not> prefix (severityDescription ''safe'')
      ''Analysis complete: No social engineering indicators detected. This communication appears legitimate and safe.''"
    by (simp add: severityDescription_def)
  have 2: "\<not> str_includes
      ''Analysis complete: No social engineering indicators detected. This communication appears legitimate and safe.''
      (severityDescription ''safe'')"
    by (simp add: severityDescription_def)
  have 3: "\<not> str_includes
      ''Analysis complete: No social engineering indicators detected. This communication appears legitimate and safe.''
      (recommendation ''safe'')"
    by (simp add: recommendation_def)
  have 4: "''Analysis complete: No social engineering indicators detected. This communication appears legitimate and safe.''
       \<noteq> generateNLPExplanation [] ''safe'' ''email''"
  proof -
    have "hd ''Analysis complete: No social engineering indicators detected. This communication appears legitimate and safe.'' \<noteq> CHR 0xF0"
      by simp
    from generateNLPExplanation_neq [OF this, of "[]" "''safe''" "''email''"]
    show ?thesis by (rule not_sym)
  qed
  show ?thesis
    using matched_coffee 1 2 3 4 unfolding e str_includes_sublist by blast
qed

text \<open>
  Claim C9, amended. The explanation of a scan without matches is a fixed sentence of
  \<open>analyzeThreatWithNLP\<close>: one when there is no pattern list, another when nothing of the
  list matches; in both cases the list of detected patterns is empty. The explainer is
  not called: none of its texts equals either sentence.
\<close>

theorem safe_explanation_fixed_text:
  "nlpExplanation (analyzeThreatWithNLP None content sourceType) =
     ''No threats detected. This communication appears safe.''
   \<and> detectedPatterns (analyzeThreatWithNLP None content sourceType) = []
   \<and> (matched_patterns content patterns = [] \<longrightarrow>
        nlpExplanation (analyzeThreatWithNLP (Some patterns) content sourceType) =
          ''Analysis complete: No social engineering indicators detected. This communication appears legitimate and safe.''
        \<and> detectedPatterns (analyzeThreatWithNLP (Some patterns) content sourceType) = [])
   \<and> generateNLPExplanation detected level sourceType' \<noteq>
        ''No threats detected. This communication appears safe.''
   \<and> generateNLPExplanation detected level sourceType' \<noteq>
        ''Analysis complete: No social engineering indicators detected. This communication appears legitimate and safe.''"
proof -
  have "generateNLPExplanation detected level sourceType' \<noteq>
        ''No threats detected. This communication appears safe.''"
    by (rule generateNLPExplanation_neq) simp
  moreover have "generateNLPExplanation detected level sourceType' \<noteq>
        ''Analysis complete: No social engineering indicators detected. This communication appears legitimate and safe.''"
    by (rule generateNLPExplanation_neq) simp
  ultimately show ?thesis
    by (simp add: analyze_unavailable analyze_no_match)
qed

theorem safe_explanation_fixed_text_witness:
  "matched_patterns coffee_content seeded_catalog = []
   \<and> nlpExplanation (analyzeThreatWithNLP (Some seeded_catalog) coffee_content ''email'') =
       ''Analysis complete: No social engineering indicators detected. This communication appears legitimate and safe.''
   \<and> detectedPatterns (analyzeThreatWithNLP (Some seeded_catalog) coffee_content ''email'') = []"
  using safe_explanation_fixed_text [of coffee_content "''email''" seeded_catalog] matched_coffee
  by blast

subsection \<open>C10: a floor of 65 for a scan with matches\<close>

text \<open>
  Claim C10. When at least one pattern matches and the weights of the matched patterns lie
  in [0,1], the confidence score is at least 65 and the severity is not safe.
\<close>

theorem match_confidence_floor:
  assumes "matched_patterns content patterns \<noteq> []"
    and "\<forall>p\<in>set (matched_patterns content patterns). 0 \<le> severity_weight p \<and> severity_weight p \<le> 1"
  shows "65 \<le> confidenceScore (analyzeThreatWithNLP (Some patterns) content sourceType)
         \<and> severityLevel (analyzeThreatWithNLP (Some patterns) content sourceType) \<noteq> Safe"
proof -
  let ?ms = "matched_patterns content patterns"
  let ?n = "real (length ?ms)"
  let ?avg = "fdiv (foldl fadd 0 (map severity_weight ?ms)) ?n"
  have n: "1 \<le> ?n"
    using assms(1) by (cases ?ms) auto
  have "0 \<le> foldl fadd 0 (map severity_weight ?ms)"
    using assms(2) by (intro foldl_fadd_nonneg) auto
  then have avg: "0 \<le> ?avg"
    using n by (simp add: fdiv_def double_nonneg)
  have "real 15 \<le> double (?n * 15)"
    using n by (intro double_ge_nat) simp_all
  then have 1: "15 \<le> fmul ?n 15"
    by (simp add: fmul_def)
  have "real 65 \<le> double (50 + fmul ?n 15)"
    using 1 by (intro double_ge_nat) simp_all
  then have 2: "65 \<le> fadd 50 (fmul ?n 15)"
    by (simp add: fadd_def)
  have 3: "0 \<le> fmul ?avg 20"
    using avg by (simp add: fmul_def double_nonneg)
  have "real 65 \<le> double (fadd 50 (fmul ?n 15) + fmul ?avg 20)"
    using 2 3 by (intro double_ge_nat) simp_all
  then have "65 \<le> fadd (fadd 50 (fmul ?n 15)) (fmul ?avg 20)"
    by (simp add: fadd_def)
  then have "65 \<le> confidenceScore (analyzeThreatWithNLP (Some patterns) content sourceType)"
    by (simp add: analyze_match_confidence [OF assms(1)])
  moreover have "severityLevel (analyzeThreatWithNLP (Some patterns) content sourceType) \<noteq> Safe"
    by (simp add: analyze_match_severity [OF assms(1)] Let_def)
  ultimately show ?thesis by blast
qed

theorem match_confidence_floor_witness:
  "matched_patterns click_content seeded_catalog \<noteq> []
   \<and> list_all (\<lambda>p. 0 \<le> severity_weight p \<and> severity_weight p \<le> 1)
        (matched_patterns click_content seeded_catalog)
   \<and> 65 \<le> confidenceScore (analyzeThreatWithNLP (Some seeded_catalog) click_content ''link'')
   \<and> severityLevel (analyzeThreatWithNLP (Some seeded_catalog) click_content ''link'') \<noteq> Safe"
proof -
  have m: "matched_patterns click_content seeded_catalog \<noteq> []"
    by (simp add: matched_click)
  have w: "\<forall>p\<in>set (matched_patterns click_content seeded_catalog).
         0 \<le> severity_weight p \<and> severity_weight p \<le> 1"
    by (simp add: matched_click links_pattern_def double_09)
  show ?thesis
    using m w match_confidence_floor [OF m w, of "''link''"] by (simp add: list_all_iff)
qed

end
